theory Spec2Isabelle
  imports Complex_Main "HOL-Library.AList" "HOL-Library.Sublist" "HOL-Library.Word"
begin

section \<open>Values, documents and dictionaries\<close>

text \<open>
  The handlers of \<^verbatim>\<open>main.py\<close> exchange Python dictionaries with the MongoDB driver.
  A dictionary is an association list in insertion order (the order of a Python dict and of
  a BSON document); \<open>AList.update\<close> is \<^verbatim>\<open>d[k] = v\<close>: it overwrites the entry of an
  existing key in place and appends a new key. A Python \<^verbatim>\<open>float\<close> is a real number here
  (NaN and the infinities are outside the model), a Python \<^verbatim>\<open>int\<close> is an unbounded \<open>int\<close>.
\<close>

datatype date = Date (year: int) (month: nat) (day: nat)

text \<open>
  \<^verbatim>\<open>bson.ObjectId\<close> (an external library): the value is a byte string, twelve bytes
  for every id the driver generates.
\<close>

datatype objectid = Oid (binary: "8 word list")

datatype val =
    VNull
  | VStr string
  | VInt int
  | VFloat real
  | VDate date
  | VOid objectid
  | VList "val list"
  | VDict "(string \<times> val) list"

type_synonym dict = "(string \<times> val) list"

definition dict_get :: "dict \<Rightarrow> string \<Rightarrow> val option" where
  "dict_get d k = map_of d k"

section \<open>The filter of \<^verbatim>\<open>list_properties\<close> (main.py, lines 113 to 128)\<close>

text \<open>
  \<^verbatim>\<open>if q:\<close> and \<^verbatim>\<open>if location:\<close> test Python truthiness: \<^verbatim>\<open>None\<close> and the empty string are
  both false. \<^verbatim>\<open>if min_price is not None:\<close> tests presence only, so \<open>0\<close> passes.
  \<^verbatim>\<open>if price_filter:\<close> is true of a dictionary with at least one key.
  \<open>regex_i pat\<close> is the dictionary \<^verbatim>\<open>{"$regex": pat, "$options": "i"}\<close>, which the
  source writes out four times.
\<close>

definition regex_i :: "string \<Rightarrow> val" where
  "regex_i pat = VDict [(''$regex'', VStr pat), (''$options'', VStr ''i'')]"

definition list_properties_filter ::
    "string option \<Rightarrow> string option \<Rightarrow> real option \<Rightarrow> real option \<Rightarrow> dict" where
  "list_properties_filter q location min_price max_price =
    (let filter_dict = [];
         filter_dict =
           (case q of
              None \<Rightarrow> filter_dict
            | Some qs \<Rightarrow>
                if qs = [] then filter_dict
                else AList.update ''$or''
                       (VList [VDict [(''title'', regex_i qs)],
                               VDict [(''description'', regex_i qs)],
                               VDict [(''location'', regex_i qs)]]) filter_dict);
         filter_dict =
           (case location of
              None \<Rightarrow> filter_dict
            | Some ls \<Rightarrow>
                if ls = [] then filter_dict
                else AList.update ''location'' (regex_i ls) filter_dict);
         price_filter = [];
         price_filter =
           (case min_price of
              None \<Rightarrow> price_filter
            | Some lo \<Rightarrow> AList.update ''$gte'' (VFloat lo) price_filter);
         price_filter =
           (case max_price of
              None \<Rightarrow> price_filter
            | Some hi \<Rightarrow> AList.update ''$lte'' (VFloat hi) price_filter)
     in if price_filter \<noteq> [] then AList.update ''price_per_night'' (VDict price_filter) filter_dict
        else filter_dict)"

section \<open>Exceptions and HTTP responses\<close>

text \<open>
  Every \<^verbatim>\<open>raise\<close> is a value. FastAPI turns \<^verbatim>\<open>HTTPException(status_code, detail)\<close> into a
  response with that status and the body \<^verbatim>\<open>{"detail": detail}\<close>; any other exception that
  leaves a handler becomes status 500; a request body that fails validation never reaches
  the handler and becomes status 422 with the failing fields.
\<close>

datatype exn =
    HTTPException nat string
  | InvalidId
  | StoreUnavailable
  | PyMongoError
  | TypeError
  | ValueError
  | ValidationError

datatype 'a body = Payload 'a | Detail string | FieldErrors "string list" | InternalServerError

datatype 'a response = Response (status: nat) (content: "'a body")

fun respond :: "nat \<Rightarrow> exn + 'a \<Rightarrow> 'a response" where
  "respond ok (Inr v) = Response ok (Payload v)"
| "respond ok (Inl (HTTPException code detail)) = Response code (Detail detail)"
| "respond ok (Inl e) = Response 500 InternalServerError"

section \<open>\<^verbatim>\<open>ObjectId(property_id)\<close> and \<^verbatim>\<open>str(_id)\<close>\<close>

text \<open>
  \<^verbatim>\<open>ObjectId(s)\<close> on a string: when \<^verbatim>\<open>len(s) == 24\<close> the value is \<^verbatim>\<open>bytes.fromhex(s)\<close>,
  and \<^verbatim>\<open>InvalidId\<close> is raised when that fails or the length differs. \<^verbatim>\<open>bytes.fromhex\<close>
  reads two hexadecimal digits per byte, of either case, and skips ASCII whitespace between
  bytes. \<^verbatim>\<open>str(oid)\<close> is the lower-case hexadecimal text of the bytes.
\<close>

definition hexval :: "char \<Rightarrow> nat option" where
  "hexval c =
    (let n = (of_char c :: nat)
     in if 48 \<le> n \<and> n \<le> 57 then Some (n - 48)
        else if 97 \<le> n \<and> n \<le> 102 then Some (n - 87)
        else if 65 \<le> n \<and> n \<le> 70 then Some (n - 55)
        else None)"

definition is_space :: "char \<Rightarrow> bool" where
  "is_space c = ((of_char c :: nat) = 32 \<or> (9 \<le> (of_char c :: nat) \<and> (of_char c :: nat) \<le> 13))"

fun fromhex :: "string \<Rightarrow> 8 word list option" where
  "fromhex [] = Some []"
| "fromhex [c] = (if is_space c then Some [] else None)"
| "fromhex (c # d # cs) =
     (if is_space c then fromhex (d # cs)
      else (case (hexval c, hexval d) of
              (Some h, Some l) \<Rightarrow> map_option ((#) (word_of_nat (16 * h + l))) (fromhex cs)
            | _ \<Rightarrow> None))"

definition ObjectId :: "string \<Rightarrow> exn + objectid" where
  "ObjectId s =
    (if length s = 24
     then (case fromhex s of Some bs \<Rightarrow> Inr (Oid bs) | None \<Rightarrow> Inl InvalidId)
     else Inl InvalidId)"

definition hexchar :: "nat \<Rightarrow> char" where
  "hexchar d = ''0123456789abcdef'' ! d"

definition hex2 :: "8 word \<Rightarrow> string" where
  "hex2 b = [hexchar (unat b div 16), hexchar (unat b mod 16)]"

definition str_oid :: "objectid \<Rightarrow> string" where
  "str_oid i = concat (map hex2 (binary i))"

section \<open>The document store behind \<^verbatim>\<open>db\<close>\<close>

text \<open>
  The module-level \<^verbatim>\<open>db\<close> is \<open>None\<close> (no connection configured) or a database handle.
  A database is modelled by its collections, each a list of documents in insertion order
  (a collection that was never written is empty), the counter its next generated id is
  drawn from, and a schedule of driver faults: each call of the driver takes the head of
  \<open>faults\<close>, and raises when it is \<open>True\<close> (a lost connection, a query the server
  rejects); an empty schedule means that no call fails. A stored document is its \<^verbatim>\<open>_id\<close>,
  always an ObjectId here since no handler supplies one, and its other members.
\<close>

record document =
  oid :: objectid
  members :: dict

record store =
  colls :: "string \<Rightarrow> document list"
  counter :: nat
  faults :: "bool list"

definition as_dict :: "document \<Rightarrow> dict" where
  "as_dict d = (''_id'', VOid (oid d)) # members d"

definition driver_call :: "store \<Rightarrow> bool \<times> store" where
  "driver_call s = (case faults s of [] \<Rightarrow> (False, s) | f # fs \<Rightarrow> (f, s\<lparr>faults := fs\<rparr>))"

definition new_oid :: "nat \<Rightarrow> objectid" where
  "new_oid n = Oid (map (\<lambda>i. word_of_nat (n div 256 ^ i)) (rev [0..<12]))"

definition add_document :: "string \<Rightarrow> dict \<Rightarrow> store \<Rightarrow> store" where
  "add_document c d s =
     s\<lparr>colls := (colls s)(c := colls s c @ [\<lparr>oid = new_oid (counter s), members = d\<rparr>]),
       counter := Suc (counter s)\<rparr>"

definition count_documents :: "store \<Rightarrow> string \<Rightarrow> (exn + nat) \<times> store" where
  "count_documents s c =
    (case driver_call s of
       (True, s') \<Rightarrow> (Inl PyMongoError, s')
     | (False, s') \<Rightarrow> (Inr (length (colls s' c)), s'))"

definition insert_one :: "store \<Rightarrow> string \<Rightarrow> dict \<Rightarrow> (exn + objectid) \<times> store" where
  "insert_one s c d =
    (case driver_call s of
       (True, s') \<Rightarrow> (Inl PyMongoError, s')
     | (False, s') \<Rightarrow> (Inr (new_oid (counter s')), add_document c d s'))"

definition insert_many :: "store \<Rightarrow> string \<Rightarrow> dict list \<Rightarrow> (exn + unit) \<times> store" where
  "insert_many s c ds =
    (case driver_call s of
       (True, s') \<Rightarrow> (Inl PyMongoError, s')
     | (False, s') \<Rightarrow> (Inr (), fold (add_document c) ds s'))"

subsection \<open>Query filters\<close>

text \<open>
  The meaning of a filter, for the operators this program emits. The members of a filter
  hold together (AND); \<^verbatim>\<open>$or\<close> holds when one of its alternatives does; a member
  \<^verbatim>\<open>{"$regex": p, "$options": opts}\<close> holds of a string field that the server's regular
  expression engine \<open>rx p opts\<close> accepts; \<^verbatim>\<open>$gte\<close> and \<^verbatim>\<open>$lte\<close> compare numbers; any other
  value is compared for equality. The engine \<open>rx\<close> belongs to the database server and is
  a parameter.
\<close>

type_synonym regex_engine = "string \<Rightarrow> string \<Rightarrow> string \<Rightarrow> bool"

definition num_of :: "val \<Rightarrow> real option" where
  "num_of v = (case v of VInt i \<Rightarrow> Some (of_int i) | VFloat r \<Rightarrow> Some r | _ \<Rightarrow> None)"

definition holds_regex :: "regex_engine \<Rightarrow> dict \<Rightarrow> val option \<Rightarrow> bool" where
  "holds_regex rx ops v =
    (case map_of ops ''$regex'' of
       None \<Rightarrow> True
     | Some (VStr p) \<Rightarrow>
         (case v of
            Some (VStr s) \<Rightarrow>
              rx p (case map_of ops ''$options'' of Some (VStr opts) \<Rightarrow> opts | _ \<Rightarrow> []) s
          | _ \<Rightarrow> False)
     | Some _ \<Rightarrow> False)"

definition holds_bound :: "string \<Rightarrow> (real \<Rightarrow> real \<Rightarrow> bool) \<Rightarrow> dict \<Rightarrow> val option \<Rightarrow> bool" where
  "holds_bound opr cmp ops v =
    (case map_of ops opr of
       None \<Rightarrow> True
     | Some b \<Rightarrow>
         (case (num_of b, Option.bind v num_of) of
            (Some bound, Some x) \<Rightarrow> cmp x bound
          | _ \<Rightarrow> False))"

definition holds :: "regex_engine \<Rightarrow> val \<Rightarrow> val option \<Rightarrow> bool" where
  "holds rx c v =
    (case c of
       VDict ops \<Rightarrow>
         holds_regex rx ops v \<and> holds_bound ''$gte'' (\<ge>) ops v \<and> holds_bound ''$lte'' (\<le>) ops v
     | _ \<Rightarrow> v = Some c)"

definition matches_fields :: "regex_engine \<Rightarrow> dict \<Rightarrow> dict \<Rightarrow> bool" where
  "matches_fields rx flt d = list_all (\<lambda>(k, c). holds rx c (map_of d k)) flt"

definition matches :: "regex_engine \<Rightarrow> dict \<Rightarrow> dict \<Rightarrow> bool" where
  "matches rx flt d =
    list_all
      (\<lambda>(k, c).
         if k = ''$or''
         then (case c of
                 VList alts \<Rightarrow>
                   list_ex (\<lambda>a. case a of VDict f \<Rightarrow> matches_fields rx f d | _ \<Rightarrow> False) alts
               | _ \<Rightarrow> False)
         else holds rx c (map_of d k))
      flt"

definition find_docs :: "regex_engine \<Rightarrow> store \<Rightarrow> string \<Rightarrow> dict \<Rightarrow> (exn + document list) \<times> store" where
  "find_docs rx s c flt =
    (case driver_call s of
       (True, s') \<Rightarrow> (Inl PyMongoError, s')
     | (False, s') \<Rightarrow> (Inr (filter (\<lambda>d. matches rx flt (as_dict d)) (colls s' c)), s'))"

definition find_one :: "regex_engine \<Rightarrow> store \<Rightarrow> string \<Rightarrow> dict \<Rightarrow> (exn + document option) \<times> store" where
  "find_one rx s c flt =
    (case driver_call s of
       (True, s') \<Rightarrow> (Inl PyMongoError, s')
     | (False, s') \<Rightarrow>
         (Inr (List.find (\<lambda>d. matches rx flt (as_dict d)) (colls s' c)), s'))"

subsection \<open>The regular expression engine\<close>








section \<open>The schemas of \<^verbatim>\<open>schemas.py\<close>\<close>

text \<open>
  \<^verbatim>\<open>Property\<close> and \<^verbatim>\<open>Booking\<close> are the validated models. A request body is the JSON object
  before validation: each member is given or omitted (\<open>None\<close>), and a given member already
  has the JSON type of its field (Pydantic's coercion of members of another type is outside
  the model). \<^verbatim>\<open>review_count\<close> is \<^verbatim>\<open>Optional[int] = 0\<close>: omitted it is \<open>0\<close>, and an explicit
  \<^verbatim>\<open>null\<close> (\<open>Some None\<close>) stays \<^verbatim>\<open>None\<close>.
\<close>

record Property =
  title :: string
  description :: string
  location :: string
  country :: "string option"
  price_per_night :: real
  max_guests :: int
  bedrooms :: int
  bathrooms :: int
  rating :: "real option"
  review_count :: "int option"
  amenities :: "string list"
  image_urls :: "string list"

record Booking =
  property_id :: string
  name :: string
  email :: string
  phone :: "string option"
  check_in :: date
  check_out :: date
  guests :: int
  message :: "string option"

record PropertyBody =
  body_title :: "string option"
  body_description :: "string option"
  body_location :: "string option"
  body_country :: "string option"
  body_price_per_night :: "real option"
  body_max_guests :: "int option"
  body_bedrooms :: "int option"
  body_bathrooms :: "int option"
  body_rating :: "real option"
  body_review_count :: "int option option"
  body_amenities :: "string list option"
  body_image_urls :: "string list option"

record BookingBody =
  body_property_id :: "string option"
  body_name :: "string option"
  body_email :: "string option"
  body_phone :: "string option"
  body_check_in :: "date option"
  body_check_out :: "date option"
  body_guests :: "int option"
  body_message :: "string option"

text \<open>
  \<^verbatim>\<open>Field(..., ge=0)\<close> is a required member with a lower bound; \<^verbatim>\<open>Field(1, ge=0)\<close> and
  \<^verbatim>\<open>Field(None, ge=0, le=5)\<close> are checked only when the member is given. A validation
  error lists every failing field.
\<close>

definition required :: "string \<Rightarrow> 'a option \<Rightarrow> ('a \<Rightarrow> bool) \<Rightarrow> string list" where
  "required k v ok = (case v of None \<Rightarrow> [k] | Some x \<Rightarrow> if ok x then [] else [k])"

definition optional :: "string \<Rightarrow> 'a option \<Rightarrow> ('a \<Rightarrow> bool) \<Rightarrow> string list" where
  "optional k v ok = (case v of None \<Rightarrow> [] | Some x \<Rightarrow> if ok x then [] else [k])"

definition Property_errors :: "PropertyBody \<Rightarrow> string list" where
  "Property_errors b =
     required ''title'' (body_title b) (\<lambda>_. True)
     @ required ''description'' (body_description b) (\<lambda>_. True)
     @ required ''location'' (body_location b) (\<lambda>_. True)
     @ required ''price_per_night'' (body_price_per_night b) (\<lambda>p. 0 \<le> p)
     @ required ''max_guests'' (body_max_guests b) (\<lambda>n. 1 \<le> n)
     @ optional ''bedrooms'' (body_bedrooms b) (\<lambda>n. 0 \<le> n)
     @ optional ''bathrooms'' (body_bathrooms b) (\<lambda>n. 0 \<le> n)
     @ optional ''rating'' (body_rating b) (\<lambda>r. 0 \<le> r \<and> r \<le> 5)"

definition validate_Property :: "PropertyBody \<Rightarrow> string list + Property" where
  "validate_Property b =
    (case (body_title b, body_description b, body_location b,
           body_price_per_night b, body_max_guests b) of
       (Some t, Some d, Some l, Some p, Some g) \<Rightarrow>
         if Property_errors b = []
         then Inr \<lparr>title = t, description = d, location = l, country = body_country b,
                   price_per_night = p, max_guests = g,
                   bedrooms = (case body_bedrooms b of None \<Rightarrow> 1 | Some n \<Rightarrow> n),
                   bathrooms = (case body_bathrooms b of None \<Rightarrow> 1 | Some n \<Rightarrow> n),
                   rating = body_rating b,
                   review_count = (case body_review_count b of None \<Rightarrow> Some 0 | Some n \<Rightarrow> n),
                   amenities = (case body_amenities b of None \<Rightarrow> [] | Some xs \<Rightarrow> xs),
                   image_urls = (case body_image_urls b of None \<Rightarrow> [] | Some xs \<Rightarrow> xs)\<rparr>
         else Inl (Property_errors b)
     | _ \<Rightarrow> Inl (Property_errors b))"

definition Booking_errors :: "BookingBody \<Rightarrow> string list" where
  "Booking_errors b =
     required ''property_id'' (body_property_id b) (\<lambda>_. True)
     @ required ''name'' (body_name b) (\<lambda>_. True)
     @ required ''email'' (body_email b) (\<lambda>_. True)
     @ required ''check_in'' (body_check_in b) (\<lambda>_. True)
     @ required ''check_out'' (body_check_out b) (\<lambda>_. True)
     @ required ''guests'' (body_guests b) (\<lambda>n. 1 \<le> n)"

definition validate_Booking :: "BookingBody \<Rightarrow> string list + Booking" where
  "validate_Booking b =
    (case (body_property_id b, body_name b, body_email b,
           body_check_in b, body_check_out b, body_guests b) of
       (Some p, Some n, Some e, Some ci, Some co, Some g) \<Rightarrow>
         if Booking_errors b = []
         then Inr \<lparr>property_id = p, name = n, email = e, phone = body_phone b,
                   check_in = ci, check_out = co, guests = g, message = body_message b\<rparr>
         else Inl (Booking_errors b)
     | _ \<Rightarrow> Inl (Booking_errors b))"

text \<open>The document of a validated model (\<^verbatim>\<open>model_dump\<close>): one member per field.\<close>

definition opt_val :: "('a \<Rightarrow> val) \<Rightarrow> 'a option \<Rightarrow> val" where
  "opt_val f v = (case v of None \<Rightarrow> VNull | Some x \<Rightarrow> f x)"

definition dump_Property :: "Property \<Rightarrow> dict" where
  "dump_Property p =
     [(''title'', VStr (title p)),
      (''description'', VStr (description p)),
      (''location'', VStr (location p)),
      (''country'', opt_val VStr (country p)),
      (''price_per_night'', VFloat (price_per_night p)),
      (''max_guests'', VInt (max_guests p)),
      (''bedrooms'', VInt (bedrooms p)),
      (''bathrooms'', VInt (bathrooms p)),
      (''rating'', opt_val VFloat (rating p)),
      (''review_count'', opt_val VInt (review_count p)),
      (''amenities'', VList (map VStr (amenities p))),
      (''image_urls'', VList (map VStr (image_urls p)))]"

definition dump_Booking :: "Booking \<Rightarrow> dict" where
  "dump_Booking b =
     [(''property_id'', VStr (property_id b)),
      (''name'', VStr (name b)),
      (''email'', VStr (email b)),
      (''phone'', opt_val VStr (phone b)),
      (''check_in'', VDate (check_in b)),
      (''check_out'', VDate (check_out b)),
      (''guests'', VInt (guests b)),
      (''message'', opt_val VStr (message b))]"

section \<open>The adapter of \<^verbatim>\<open>database.py\<close>\<close>

text \<open>
  Modelled from the spec: \<^verbatim>\<open>database.py\<close> (\<^verbatim>\<open>create_document\<close>, \<^verbatim>\<open>get_documents\<close>) is
  not among the sources. Section 4.2 of the specification: \<^verbatim>\<open>insert(collection, document)\<close>
  returns a newly generated identifier, rendered as a string, and fails with
  \<^verbatim>\<open>StoreUnavailable\<close> when no connection exists.
\<close>

definition create_document :: "store option \<Rightarrow> string \<Rightarrow> dict \<Rightarrow> (exn + string) \<times> store option" where
  "create_document db c d =
    (case db of
       None \<Rightarrow> (Inl StoreUnavailable, None)
     | Some s \<Rightarrow>
         (case insert_one s c d of
            (Inl e, s') \<Rightarrow> (Inl e, Some s')
          | (Inr i, s') \<Rightarrow> (Inr (str_oid i), Some s')))"

text \<open>
  Modelled from the spec: \<^verbatim>\<open>get_documents\<close> of \<^verbatim>\<open>database.py\<close>. Section 4.2:
  \<^verbatim>\<open>find(collection, filter)\<close> returns the matching documents in the store's natural order,
  and the empty sequence (not an error) when the connection is unavailable.
\<close>

definition get_documents ::
    "regex_engine \<Rightarrow> store option \<Rightarrow> string \<Rightarrow> dict \<Rightarrow> (exn + document list) \<times> store option" where
  "get_documents rx db c flt =
    (case db of
       None \<Rightarrow> (Inr [], None)
     | Some s \<Rightarrow> (case find_docs rx s c flt of (r, s') \<Rightarrow> (r, Some s')))"

section \<open>The handlers of \<^verbatim>\<open>main.py\<close>\<close>

subsection \<open>\<^verbatim>\<open>PropertyOut\<close> and the mapping of a document to it\<close>

text \<open>
  \<^verbatim>\<open>PropertyOut\<close> has the twelve fields of \<^verbatim>\<open>Property\<close> (without their bounds) and the
  \<^verbatim>\<open>id\<close>, here \<open>ident\<close>.
\<close>

record PropertyOut = Property +
  ident :: string

text \<open>
  \<^verbatim>\<open>d.get(k, default)\<close>, then \<^verbatim>\<open>float(...)\<close> and \<^verbatim>\<open>int(...)\<close> where the source applies
  them, then the validation of the \<^verbatim>\<open>PropertyOut\<close> constructor. The arguments are
  evaluated before the constructor runs, so a failing conversion is raised first.
  \<^verbatim>\<open>int\<close> of a float truncates towards zero. Python parses a numeric string in
  \<^verbatim>\<open>float\<close> and \<^verbatim>\<open>int\<close>; no handler writes a string into a numeric member, and the model
  reports \<^verbatim>\<open>ValueError\<close> for every string.
\<close>

definition get_or :: "dict \<Rightarrow> string \<Rightarrow> val \<Rightarrow> val" where
  "get_or d k dflt = (case map_of d k of None \<Rightarrow> dflt | Some v \<Rightarrow> v)"

definition py_float :: "val \<Rightarrow> exn + real" where
  "py_float v =
    (case v of
       VInt i \<Rightarrow> Inr (of_int i)
     | VFloat r \<Rightarrow> Inr r
     | VStr _ \<Rightarrow> Inl ValueError
     | _ \<Rightarrow> Inl TypeError)"

definition py_int :: "val \<Rightarrow> exn + int" where
  "py_int v =
    (case v of
       VInt i \<Rightarrow> Inr i
     | VFloat r \<Rightarrow> Inr (if 0 \<le> r then \<lfloor>r\<rfloor> else \<lceil>r\<rceil>)
     | VStr _ \<Rightarrow> Inl ValueError
     | _ \<Rightarrow> Inl TypeError)"

definition as_str :: "val \<Rightarrow> string option" where
  "as_str v = (case v of VStr s \<Rightarrow> Some s | _ \<Rightarrow> None)"

definition as_opt_str :: "val \<Rightarrow> string option option" where
  "as_opt_str v = (case v of VNull \<Rightarrow> Some None | VStr s \<Rightarrow> Some (Some s) | _ \<Rightarrow> None)"

definition as_opt_float :: "val \<Rightarrow> real option option" where
  "as_opt_float v =
    (case v of
       VNull \<Rightarrow> Some None
     | VFloat r \<Rightarrow> Some (Some r)
     | VInt i \<Rightarrow> Some (Some (of_int i))
     | _ \<Rightarrow> None)"

definition as_opt_int :: "val \<Rightarrow> int option option" where
  "as_opt_int v = (case v of VNull \<Rightarrow> Some None | VInt i \<Rightarrow> Some (Some i) | _ \<Rightarrow> None)"

fun strs :: "val list \<Rightarrow> string list option" where
  "strs [] = Some []"
| "strs (VStr s # vs) = map_option ((#) s) (strs vs)"
| "strs (_ # vs) = None"

definition as_str_list :: "val \<Rightarrow> string list option" where
  "as_str_list v = (case v of VList vs \<Rightarrow> strs vs | _ \<Rightarrow> None)"

definition PropertyOut_of :: "document \<Rightarrow> exn + PropertyOut" where
  "PropertyOut_of doc =
    (let d = as_dict doc in
     case py_float (get_or d ''price_per_night'' (VInt 0)) of
       Inl e \<Rightarrow> Inl e
     | Inr price \<Rightarrow>
     (case py_int (get_or d ''max_guests'' (VInt 1)) of
       Inl e \<Rightarrow> Inl e
     | Inr mg \<Rightarrow>
     (case py_int (get_or d ''bedrooms'' (VInt 1)) of
       Inl e \<Rightarrow> Inl e
     | Inr bed \<Rightarrow>
     (case py_int (get_or d ''bathrooms'' (VInt 1)) of
       Inl e \<Rightarrow> Inl e
     | Inr bath \<Rightarrow>
     (case (as_str (get_or d ''title'' (VStr [])),
            as_str (get_or d ''description'' (VStr [])),
            as_str (get_or d ''location'' (VStr [])),
            as_opt_str (get_or d ''country'' VNull),
            as_opt_float (get_or d ''rating'' VNull),
            as_opt_int (get_or d ''review_count'' (VInt 0)),
            as_str_list (get_or d ''amenities'' (VList [])),
            as_str_list (get_or d ''image_urls'' (VList []))) of
        (Some t, Some ds, Some l, Some c, Some r, Some rc, Some am, Some im) \<Rightarrow>
          Inr \<lparr>title = t, description = ds, location = l, country = c,
                price_per_night = price, max_guests = mg, bedrooms = bed, bathrooms = bath,
                rating = r, review_count = rc, amenities = am, image_urls = im,
                ident = str_oid (oid doc)\<rparr>
      | _ \<Rightarrow> Inl ValidationError)))))"

fun results_of :: "document list \<Rightarrow> exn + PropertyOut list" where
  "results_of [] = Inr []"
| "results_of (d # docs) =
     (case PropertyOut_of d of
        Inl e \<Rightarrow> Inl e
      | Inr v \<Rightarrow> (case results_of docs of Inl e \<Rightarrow> Inl e | Inr vs \<Rightarrow> Inr (v # vs)))"

subsection \<open>\<^verbatim>\<open>seed_sample_properties\<close> (lines 38 to 101)\<close>

definition samples :: "dict list" where
  "samples =
    [[(''title'', VStr ''Cozy Mountain Hut''),
      (''description'', VStr ''A charming wooden hut nestled in the mountains with breathtaking views.''),
      (''location'', VStr ''Aspen, Colorado''),
      (''country'', VStr ''USA''),
      (''price_per_night'', VInt 220),
      (''max_guests'', VInt 4),
      (''bedrooms'', VInt 2),
      (''bathrooms'', VInt 1),
      (''rating'', VFloat 4.8),
      (''review_count'', VInt 128),
      (''amenities'', VList [VStr ''Fireplace'', VStr ''Hot tub'', VStr ''Wi-Fi'', VStr ''Kitchen'']),
      (''image_urls'',
         VList [VStr ''https://images.unsplash.com/photo-1512917774080-9991f1c4c750'',
                VStr ''https://images.unsplash.com/photo-1505691723518-36a5ac3b2d95''])],
     [(''title'', VStr ''Lakeside Cabin Retreat''),
      (''description'', VStr ''Quiet cabin right on the lake. Perfect for fishing and sunsets.''),
      (''location'', VStr ''Lake Tahoe, California''),
      (''country'', VStr ''USA''),
      (''price_per_night'', VInt 180),
      (''max_guests'', VInt 5),
      (''bedrooms'', VInt 2),
      (''bathrooms'', VInt 2),
      (''rating'', VFloat 4.6),
      (''review_count'', VInt 86),
      (''amenities'', VList [VStr ''Canoe'', VStr ''Deck'', VStr ''Grill'', VStr ''Parking'']),
      (''image_urls'',
         VList [VStr ''https://images.unsplash.com/photo-1501183638710-841dd1904471'',
                VStr ''https://images.unsplash.com/photo-1500530855697-b586d89ba3ee''])],
     [(''title'', VStr ''Nordic Forest Lodge''),
      (''description'', VStr ''Modern Scandinavian lodge surrounded by pine forests.''),
      (''location'', VStr ''Rovaniemi, Finland''),
      (''country'', VStr ''Finland''),
      (''price_per_night'', VInt 260),
      (''max_guests'', VInt 6),
      (''bedrooms'', VInt 3),
      (''bathrooms'', VInt 2),
      (''rating'', VFloat 4.9),
      (''review_count'', VInt 203),
      (''amenities'', VList [VStr ''Sauna'', VStr ''Heated floors'', VStr ''Wi-Fi'', VStr ''Ski-in'']),
      (''image_urls'',
         VList [VStr ''https://images.unsplash.com/photo-1519999482648-25049ddd37b1'',
                VStr ''https://images.unsplash.com/photo-1544989164-31dc3c645987''])]]"

text \<open>
  The result is the exception that leaves the function, if any, and the database after
  it. \<^verbatim>\<open>except Exception: pass\<close> turns a failure of either driver call into a normal return.
\<close>

definition seed_sample_properties :: "store option \<Rightarrow> (exn + unit) \<times> store option" where
  "seed_sample_properties db =
    (case db of
       None \<Rightarrow> (Inr (), None)
     | Some s \<Rightarrow>
         (case count_documents s ''property'' of
            (Inl e, s1) \<Rightarrow> (Inr (), Some s1)
          | (Inr count, s1) \<Rightarrow>
              if count = 0
              then (if samples \<noteq> []
                    then (case insert_many s1 ''property'' samples of
                            (Inl e, s2) \<Rightarrow> (Inr (), Some s2)
                          | (Inr _, s2) \<Rightarrow> (Inr (), Some s2))
                    else (Inr (), Some s1))
              else (Inr (), Some s1)))"

subsection \<open>\<^verbatim>\<open>list_properties\<close> (lines 109 to 148)\<close>

definition list_properties ::
    "regex_engine \<Rightarrow> store option \<Rightarrow> string option \<Rightarrow> string option \<Rightarrow> real option \<Rightarrow> real option
      \<Rightarrow> (exn + PropertyOut list) \<times> store option" where
  "list_properties rx db q loc min_price max_price =
    (case db of
       None \<Rightarrow> (Inr [], None)
     | Some s \<Rightarrow>
         (case get_documents rx (Some s) ''property''
                 (list_properties_filter q loc min_price max_price) of
            (Inl e, db') \<Rightarrow> (Inl e, db')
          | (Inr docs, db') \<Rightarrow> (results_of docs, db')))"

subsection \<open>\<^verbatim>\<open>create_property\<close>, \<^verbatim>\<open>get_property\<close>, \<^verbatim>\<open>create_booking\<close>\<close>

definition create_property :: "store option \<Rightarrow> Property \<Rightarrow> (exn + dict) \<times> store option" where
  "create_property db prop =
    (case create_document db ''property'' (dump_Property prop) of
       (Inl e, db') \<Rightarrow> (Inl e, db')
     | (Inr inserted_id, db') \<Rightarrow> (Inr [(''id'', VStr inserted_id)], db'))"

definition get_property ::
    "regex_engine \<Rightarrow> store option \<Rightarrow> string \<Rightarrow> (exn + PropertyOut) \<times> store option" where
  "get_property rx db pid =
    (case db of
       None \<Rightarrow> (Inl (HTTPException 404 ''Not found''), None)
     | Some s \<Rightarrow>
         (case ObjectId pid of
            Inl e \<Rightarrow> (Inl e, Some s)
          | Inr i \<Rightarrow>
              (case find_one rx s ''property'' [(''_id'', VOid i)] of
                 (Inl e, s') \<Rightarrow> (Inl e, Some s')
               | (Inr None, s') \<Rightarrow> (Inl (HTTPException 404 ''Not found''), Some s')
               | (Inr (Some doc), s') \<Rightarrow> (PropertyOut_of doc, Some s'))))"

definition create_booking :: "store option \<Rightarrow> Booking \<Rightarrow> (exn + dict) \<times> store option" where
  "create_booking db booking =
    (case create_document db ''booking'' (dump_Booking booking) of
       (Inl e, db') \<Rightarrow> (Inl e, db')
     | (Inr inserted_id, db') \<Rightarrow>
         (Inr [(''id'', VStr inserted_id), (''status'', VStr ''received'')], db'))"

subsection \<open>The routes\<close>

text \<open>
  A route is its handler behind FastAPI: the body of a \<^verbatim>\<open>POST\<close> is validated first (status
  422 and no call of the handler when it fails), and the handler's result becomes the
  response, with the status the decorator declares (200, or 201 for the two \<^verbatim>\<open>POST\<close>s).
\<close>

definition GET_properties ::
    "regex_engine \<Rightarrow> store option \<Rightarrow> string option \<Rightarrow> string option \<Rightarrow> real option \<Rightarrow> real option
      \<Rightarrow> PropertyOut list response \<times> store option" where
  "GET_properties rx db q loc min_price max_price =
    (case list_properties rx db q loc min_price max_price of (r, db') \<Rightarrow> (respond 200 r, db'))"

definition POST_properties :: "store option \<Rightarrow> PropertyBody \<Rightarrow> dict response \<times> store option" where
  "POST_properties db b =
    (case validate_Property b of
       Inl errs \<Rightarrow> (Response 422 (FieldErrors errs), db)
     | Inr prop \<Rightarrow> (case create_property db prop of (r, db') \<Rightarrow> (respond 201 r, db')))"

definition GET_property ::
    "regex_engine \<Rightarrow> store option \<Rightarrow> string \<Rightarrow> PropertyOut response \<times> store option" where
  "GET_property rx db pid =
    (case get_property rx db pid of (r, db') \<Rightarrow> (respond 200 r, db'))"

definition POST_bookings :: "store option \<Rightarrow> BookingBody \<Rightarrow> dict response \<times> store option" where
  "POST_bookings db b =
    (case validate_Booking b of
       Inl errs \<Rightarrow> (Response 422 (FieldErrors errs), db)
     | Inr booking \<Rightarrow> (case create_booking db booking of (r, db') \<Rightarrow> (respond 201 r, db')))"

subsection \<open>The operations of the running system\<close>

text \<open>
  A request is the startup hook or one call of a route; \<open>exec\<close> is the database after it.
  \<^verbatim>\<open>GET /\<close> touches nothing. \<^verbatim>\<open>GET /test\<close> makes one driver call
  (\<^verbatim>\<open>list_collection_names\<close>) inside a \<^verbatim>\<open>try\<close> and writes nothing; its report is read by
  no property below and is not modelled.
\<close>

datatype request =
    Startup
  | ListProperties "string option" "string option" "real option" "real option"
  | CreateProperty PropertyBody
  | GetProperty string
  | CreateBooking BookingBody
  | Root
  | Diagnostics

fun exec :: "regex_engine \<Rightarrow> store option \<Rightarrow> request \<Rightarrow> store option" where
  "exec rx db Startup = snd (seed_sample_properties db)"
| "exec rx db (ListProperties q loc lo hi) = snd (GET_properties rx db q loc lo hi)"
| "exec rx db (CreateProperty b) = snd (POST_properties db b)"
| "exec rx db (GetProperty pid) = snd (GET_property rx db pid)"
| "exec rx db (CreateBooking b) = snd (POST_bookings db b)"
| "exec rx db Root = db"
| "exec rx db Diagnostics = map_option (\<lambda>s. snd (driver_call s)) db"

inductive reachable :: "regex_engine \<Rightarrow> store option \<Rightarrow> store option \<Rightarrow> bool"
  for rx :: regex_engine and db0 :: "store option" where
    start: "reachable rx db0 db0"
  | step: "reachable rx db0 db \<Longrightarrow> reachable rx db0 (exec rx db req)"

definition stored :: "store option \<Rightarrow> string \<Rightarrow> document list" where
  "stored db c = (case db of None \<Rightarrow> [] | Some s \<Rightarrow> colls s c)"

definition empty_store :: store where
  "empty_store = \<lparr>colls = (\<lambda>c. []), counter = 0, faults = []\<rparr>"

section \<open>The specification's statements\<close>

text \<open>
  Section 4.1 of the specification, in its own words: a clause for each parameter that is
  present, none for an absent one, all clauses joined by AND. \<open>specified_filter\<close> is the
  filter's structure, with a containment condition written in the store's operators as
  \<open>regex_i\<close>. \<open>specified_match\<close> is what section 4.1 requires of a document:
  \<open>contains_i q\<close> holds of a member that is a string and has \<open>q\<close> as a substring, the
  case of ASCII letters ignored. \<open>given\<close> is the reading of "present" that the code
  implements: a parameter that is not the empty string.
\<close>

definition specified_filter ::
    "string option \<Rightarrow> string option \<Rightarrow> real option \<Rightarrow> real option \<Rightarrow> dict" where
  "specified_filter q loc min_price max_price =
     (case q of
        None \<Rightarrow> []
      | Some qs \<Rightarrow>
          [(''$or'', VList [VDict [(''title'', regex_i qs)],
                            VDict [(''description'', regex_i qs)],
                            VDict [(''location'', regex_i qs)]])])
     @ (case loc of None \<Rightarrow> [] | Some ls \<Rightarrow> [(''location'', regex_i ls)])
     @ (if min_price = None \<and> max_price = None then []
        else [(''price_per_night'',
               VDict ((case min_price of None \<Rightarrow> [] | Some lo \<Rightarrow> [(''$gte'', VFloat lo)])
                      @ (case max_price of None \<Rightarrow> [] | Some hi \<Rightarrow> [(''$lte'', VFloat hi)])))])"


definition price_of :: "dict \<Rightarrow> real option" where
  "price_of d = Option.bind (map_of d ''price_per_night'') num_of"








definition given :: "string option \<Rightarrow> string option" where
  "given v = (case v of None \<Rightarrow> None | Some s \<Rightarrow> if s = [] then None else Some s)"

text \<open>
  The invariant of a stored Property (section 3), read on the members of its document:
  a price that is a number and at least 0, \<^verbatim>\<open>max_guests\<close> an integer and at least 1, and a
  rating, when the member is there and not \<^verbatim>\<open>null\<close>, a number from 0 to 5.
\<close>

definition property_invariant :: "dict \<Rightarrow> bool" where
  "property_invariant d =
     ((case price_of d of None \<Rightarrow> False | Some x \<Rightarrow> 0 \<le> x)
      \<and> (case map_of d ''max_guests'' of Some (VInt n) \<Rightarrow> 1 \<le> n | _ \<Rightarrow> False)
      \<and> (case map_of d ''rating'' of
            None \<Rightarrow> True
          | Some VNull \<Rightarrow> True
          | Some v \<Rightarrow> (case num_of v of None \<Rightarrow> False | Some r \<Rightarrow> 0 \<le> r \<and> r \<le> 5)))"

section \<open>Example inputs\<close>

text \<open>
  The body of the end-to-end example in section 8 of the specification, the model it
  validates to, a database that holds this one property, the database after seeding an
  empty one, and a booking whose \<^verbatim>\<open>check_out\<close> lies before its \<^verbatim>\<open>check_in\<close> and whose
  \<^verbatim>\<open>property_id\<close> names no property.
\<close>

definition example_body :: PropertyBody where
  "example_body =
     \<lparr>body_title = Some ''Test'', body_description = Some ''d'', body_location = Some ''X'',
      body_country = None, body_price_per_night = Some 100, body_max_guests = Some 2,
      body_bedrooms = None, body_bathrooms = None, body_rating = None,
      body_review_count = None, body_amenities = None, body_image_urls = None\<rparr>"

definition example_property :: Property where
  "example_property =
     \<lparr>title = ''Test'', description = ''d'', location = ''X'', country = None,
      price_per_night = 100, max_guests = 2, bedrooms = 1, bathrooms = 1, rating = None,
      review_count = Some 0, amenities = [], image_urls = []\<rparr>"


definition seeded_store :: store where
  "seeded_store = fold (add_document ''property'') samples empty_store"

definition example_booking :: BookingBody where
  "example_booking =
     \<lparr>body_property_id = Some ''no-such-property'', body_name = Some ''Ada'',
      body_email = Some ''ada@example.org'', body_phone = None,
      body_check_in = Some (Date 2025 7 10), body_check_out = Some (Date 2025 7 2),
      body_guests = Some 1, body_message = None\<rparr>"

text \<open>
  The identifiers of the stored properties were all drawn from the counter: the state of
  affairs that every operation keeps, and under which the next identifier is new.
\<close>

definition ids_below :: "nat \<Rightarrow> document list \<Rightarrow> bool" where
  "ids_below n ds = list_all (\<lambda>d. \<exists>k<n. oid d = new_oid k) ds"

definition ids_ok :: "store option \<Rightarrow> bool" where
  "ids_ok db = (case db of None \<Rightarrow> True | Some s \<Rightarrow> ids_below (counter s) (colls s ''property''))"

section \<open>The filter of the list endpoint\<close>

lemma filter_as_specified: "list_properties_filter q loc mn mx = specified_filter (given q) (given loc) mn mx"
  by (simp add: list_properties_filter_def specified_filter_def given_def Let_def
        split: option.splits)


















text \<open>
  C9: in \<^verbatim>\<open>GET /api/properties\<close> an empty \<^verbatim>\<open>q\<close> or \<^verbatim>\<open>location\<close> gives the filter of an
  absent one, while a \<^verbatim>\<open>min_price\<close> or \<^verbatim>\<open>max_price\<close> of \<open>0\<close> puts its bound into the
  filter (and no price clause exists when both are absent).
\<close>

theorem list_properties_filter_empty_string_and_zero:
  "list_properties_filter (Some []) loc lo hi = list_properties_filter None loc lo hi
   \<and> list_properties_filter q (Some []) lo hi = list_properties_filter q None lo hi
   \<and> dict_get (list_properties_filter q loc (Some 0) hi) ''price_per_night''
       = Some (VDict ((''$gte'', VFloat 0)
                      # (case hi of None \<Rightarrow> [] | Some h \<Rightarrow> [(''$lte'', VFloat h)])))
   \<and> dict_get (list_properties_filter q loc lo (Some 0)) ''price_per_night''
       = Some (VDict ((case lo of None \<Rightarrow> [] | Some l \<Rightarrow> [(''$gte'', VFloat l)])
                      @ [(''$lte'', VFloat 0)]))
   \<and> dict_get (list_properties_filter q loc None None) ''price_per_night'' = None"
proof -
  have a: "list_properties_filter (Some []) loc lo hi = list_properties_filter None loc lo hi"
    by (simp add: filter_as_specified given_def)
  have b: "list_properties_filter q (Some []) lo hi = list_properties_filter q None lo hi"
    by (simp add: filter_as_specified given_def)
  have c: "dict_get (list_properties_filter q loc (Some 0) hi) ''price_per_night''
       = Some (VDict ((''$gte'', VFloat 0)
                      # (case hi of None \<Rightarrow> [] | Some h \<Rightarrow> [(''$lte'', VFloat h)])))"
    by (cases "given q"; cases "given loc")
       (simp_all add: filter_as_specified specified_filter_def dict_get_def)
  have d: "dict_get (list_properties_filter q loc lo (Some 0)) ''price_per_night''
       = Some (VDict ((case lo of None \<Rightarrow> [] | Some l \<Rightarrow> [(''$gte'', VFloat l)])
                      @ [(''$lte'', VFloat 0)]))"
    by (cases "given q"; cases "given loc")
       (simp_all add: filter_as_specified specified_filter_def dict_get_def)
  have e: "dict_get (list_properties_filter q loc None None) ''price_per_night'' = None"
    by (cases "given q"; cases "given loc")
       (simp_all add: filter_as_specified specified_filter_def dict_get_def)
  from a b c d e show ?thesis by (simp only: simp_thms)
qed

section \<open>The routes without a store connection, and an id that does not parse\<close>

text \<open>
  C5: with no store connection, \<^verbatim>\<open>GET /api/properties\<close> answers status 200 with the empty
  list, whatever the query parameters.
\<close>

theorem GET_properties_no_store:
  "GET_properties rx None q loc min_price max_price = (Response 200 (Payload []), None)"
  by (simp add: GET_properties_def list_properties_def)

text \<open>
  C10: with no store connection, \<^verbatim>\<open>GET /api/properties/{id}\<close> answers status 404 with the
  detail "Not found" for every id, parsable or not: the handler returns before
  \<^verbatim>\<open>ObjectId\<close> is called.
\<close>

theorem GET_property_no_store:
  "get_property rx None pid = (Inl (HTTPException 404 ''Not found''), None)
   \<and> GET_property rx None pid = (Response 404 (Detail ''Not found''), None)"
  by (simp add: GET_property_def get_property_def)

text \<open>
  C2 says that an id that does not parse gives status 404. With a store connection the
  handler calls \<^verbatim>\<open>ObjectId(property_id)\<close> outside any \<^verbatim>\<open>try\<close>: for the id \<^verbatim>\<open>abc\<close> the
  call raises \<^verbatim>\<open>InvalidId\<close>, which leaves the handler, and the response is status 500.
\<close>

theorem GET_property_invalid_id:
  "ObjectId ''abc'' = Inl InvalidId
   \<and> get_property rx (Some s) ''abc'' = (Inl InvalidId, Some s)
   \<and> GET_property rx (Some s) ''abc'' = (Response 500 InternalServerError, Some s)"
  by (simp add: GET_property_def get_property_def ObjectId_def)

section \<open>Validation of request bodies\<close>

text \<open>
  C6: \<^verbatim>\<open>POST /api/properties\<close> with \<^verbatim>\<open>price_per_night = -1\<close> answers status 422, names the
  field, and leaves the database as it was; so does \<^verbatim>\<open>POST /api/bookings\<close> with
  \<^verbatim>\<open>guests = 0\<close>. The other members of the body are arbitrary.
\<close>

theorem POST_out_of_range_422:
  "status (fst (POST_properties db (b\<lparr>body_price_per_night := Some (- 1)\<rparr>))) = 422
   \<and> snd (POST_properties db (b\<lparr>body_price_per_night := Some (- 1)\<rparr>)) = db
   \<and> ''price_per_night'' \<in> set (Property_errors (b\<lparr>body_price_per_night := Some (- 1)\<rparr>))
   \<and> status (fst (POST_bookings db (k\<lparr>body_guests := Some 0\<rparr>))) = 422
   \<and> snd (POST_bookings db (k\<lparr>body_guests := Some 0\<rparr>)) = db
   \<and> ''guests'' \<in> set (Booking_errors (k\<lparr>body_guests := Some 0\<rparr>))"
proof -
  let ?b = "b\<lparr>body_price_per_night := Some (- 1)\<rparr>"
  let ?k = "k\<lparr>body_guests := Some 0\<rparr>"
  have pe: "''price_per_night'' \<in> set (Property_errors ?b)"
    by (simp add: Property_errors_def required_def)
  then have "Property_errors ?b \<noteq> []" by auto
  then have vp: "validate_Property ?b = Inl (Property_errors ?b)"
    by (simp add: validate_Property_def split: option.splits)
  have ke: "''guests'' \<in> set (Booking_errors ?k)"
    by (simp add: Booking_errors_def required_def)
  then have "Booking_errors ?k \<noteq> []" by auto
  then have vk: "validate_Booking ?k = Inl (Booking_errors ?k)"
    by (simp add: validate_Booking_def split: option.splits)
  show ?thesis
    using pe ke by (simp add: POST_properties_def POST_bookings_def vp vk)
qed

section \<open>Identifiers and their text\<close>

lemma lt16: "(d::nat) < 16 \<Longrightarrow> d \<in> {0,1,2,3,4,5,6,7,8,9,10,11,12,13,14,15}"
  unfolding insert_iff empty_iff by arith

lemma hexval_hexchar: "d < 16 \<Longrightarrow> hexval (hexchar d) = Some d"
  by (drule lt16) (auto simp add: hexval_def hexchar_def)

lemma not_space_hexchar: "d < 16 \<Longrightarrow> \<not> is_space (hexchar d)"
  by (drule lt16) (auto simp add: is_space_def hexchar_def)

lemma unat_byte_div: "unat (b :: 8 word) div 16 < 16"
proof -
  have "unat b < 256" using unsigned_less [of b, where ?'a = nat] by simp
  then show ?thesis by simp
qed

lemma fromhex_hex2: "fromhex (hex2 b @ cs) = map_option ((#) b) (fromhex cs)"
  by (simp add: hex2_def hexval_hexchar not_space_hexchar unat_byte_div)

lemma fromhex_hexlify: "fromhex (concat (map hex2 bs)) = Some bs"
  by (induction bs) (simp_all add: fromhex_hex2)

lemma length_hexlify: "length (concat (map hex2 bs)) = 2 * length bs"
  by (induction bs) (simp_all add: hex2_def)

lemma ObjectId_str_oid: "length (binary i) = 12 \<Longrightarrow> ObjectId (str_oid i) = Inr i"
  by (simp add: ObjectId_def str_oid_def fromhex_hexlify length_hexlify)

lemma length_new_oid: "length (binary (new_oid n)) = 12"
  by (simp add: new_oid_def)

lemma strs_map_VStr: "strs (map VStr xs) = Some xs"
  by (induction xs) simp_all

lemma PropertyOut_of_dump:
  "PropertyOut_of \<lparr>oid = i, members = dump_Property p\<rparr> =
     Inr (Property.extend p \<lparr>ident = str_oid i\<rparr>)"
  by (cases p)
     (simp add: PropertyOut_of_def as_dict_def dump_Property_def get_or_def py_float_def py_int_def
        as_str_def as_opt_str_def as_opt_float_def as_opt_int_def as_str_list_def strs_map_VStr
        opt_val_def Property.extend_def split: option.splits)

lemma matches_id: "matches rx [(''_id'', VOid i)] (as_dict d) = (oid d = i)"
  by (auto simp add: matches_def holds_def as_dict_def)

lemma find_snoc:
  "\<not> list_ex P xs \<Longrightarrow> P d \<Longrightarrow> List.find P (xs @ [d]) = Some d"
  by (induction xs) simp_all

section \<open>Driver calls and the collections\<close>

lemma driver_call_colls: "colls (snd (driver_call s)) = colls s"
  by (simp add: driver_call_def split: list.splits)

lemma driver_call_counter: "counter (snd (driver_call s)) = counter s"
  by (simp add: driver_call_def split: list.splits)

lemma driver_call_cases:
  "driver_call s = (f, s') \<Longrightarrow> colls s' = colls s \<and> counter s' = counter s"
  by (auto simp add: driver_call_def split: list.splits)

lemma driver_call_ok:
  assumes "True \<notin> set (take 1 (faults s))"
  obtains s' where "driver_call s = (False, s')" "colls s' = colls s" "counter s' = counter s"
  using assms by (cases "faults s") (auto simp add: driver_call_def)

lemma fold_add_document:
  "\<exists>new. colls (fold (add_document c) ds s) c = colls s c @ new \<and> map members new = ds"
proof (induction ds arbitrary: s)
  case Nil
  show ?case by simp
next
  case (Cons d ds)
  from Cons.IH [of "add_document c d s"] obtain new where
    n: "colls (fold (add_document c) ds (add_document c d s)) c = colls (add_document c d s) c @ new"
       "map members new = ds" by blast
  have "colls (add_document c d s) c = colls s c @ [\<lparr>oid = new_oid (counter s), members = d\<rparr>]"
    by (simp add: add_document_def)
  with n show ?case by simp
qed


lemma samples_invariant: "list_all property_invariant samples"
  by (simp add: samples_def property_invariant_def price_of_def num_of_def)

lemma required_Nil: "required k v ok = [] \<longleftrightarrow> (\<exists>x. v = Some x \<and> ok x)"
  by (cases v) (simp_all add: required_def)

lemma optional_Nil: "optional k v ok = [] \<longleftrightarrow> (\<forall>x. v = Some x \<longrightarrow> ok x)"
  by (cases v) (simp_all add: optional_def)

lemma validate_PropertyD:
  assumes "validate_Property b = Inr p"
  shows "body_price_per_night b = Some (price_per_night p) \<and> 0 \<le> price_per_night p
     \<and> body_max_guests b = Some (max_guests p) \<and> 1 \<le> max_guests p
     \<and> body_rating b = rating p \<and> (\<forall>r. rating p = Some r \<longrightarrow> 0 \<le> r \<and> r \<le> 5)"
proof -
  from assms have e: "Property_errors b = []"
    by (simp add: validate_Property_def split: option.splits if_splits)
  from assms e obtain pr g where
    "body_price_per_night b = Some pr" "body_max_guests b = Some g"
    "price_per_night p = pr" "max_guests p = g" "body_rating b = rating p"
    by (auto simp add: validate_Property_def split: option.splits)
  with e show ?thesis
    by (simp add: Property_errors_def required_Nil optional_Nil)
qed

lemma validate_invariant:
  assumes "validate_Property b = Inr p"
  shows "property_invariant (dump_Property p)"
proof -
  note d = validate_PropertyD [OF assms]
  have r: "opt_val VFloat (rating p) = VNull \<or> (\<exists>x. opt_val VFloat (rating p) = VFloat x \<and> 0 \<le> x \<and> x \<le> 5)"
    using d by (cases "rating p") (simp_all add: opt_val_def)
  from d r show ?thesis
    by (auto simp add: property_invariant_def dump_Property_def price_of_def num_of_def)
qed

lemma driver_call_ok2:
  assumes "True \<notin> set (take 2 (faults s))"
  obtains s' where "driver_call s = (False, s')" "colls s' = colls s" "counter s' = counter s"
    "True \<notin> set (take 1 (faults s'))"
proof (cases "faults s")
  case Nil
  then show ?thesis using that [of s] by (simp add: driver_call_def)
next
  case (Cons f fs)
  with assms show ?thesis using that [of "s\<lparr>faults := fs\<rparr>"]
    by (cases fs) (auto simp add: driver_call_def)
qed


lemma count_documents_colls: "colls (snd (count_documents s c)) = colls s"
  by (cases "driver_call s")
     (auto simp add: count_documents_def dest: driver_call_cases split: bool.splits)


lemma insert_many_colls:
  "\<exists>new. colls (snd (insert_many s c ds)) c = colls s c @ new
         \<and> list_all (\<lambda>d. d \<in> set ds) (map members new)"
proof (cases "driver_call s")
  case (Pair f s')
  then have c: "colls s' = colls s" by (auto dest: driver_call_cases)
  show ?thesis
  proof (cases f)
    case True
    with Pair c show ?thesis by (simp add: insert_many_def)
  next
    case False
    from fold_add_document [of c ds s'] obtain new where
      "colls (fold (add_document c) ds s') c = colls s' c @ new" "map members new = ds" by blast
    with Pair c False show ?thesis
      by (auto simp add: insert_many_def list_all_iff)
  qed
qed







lemma seed_property:
  "\<exists>new. stored (snd (seed_sample_properties db)) ''property'' = stored db ''property'' @ new
         \<and> list_all property_invariant (map members new)"
proof (cases db)
  case None
  then show ?thesis by (simp add: seed_sample_properties_def stored_def)
next
  case (Some s)
  obtain r s1 where p: "count_documents s ''property'' = (r, s1)" by (cases "count_documents s ''property''")
  then have c: "colls s1 = colls s" using count_documents_colls [of s "''property''"] by simp
  from insert_many_colls [of s1 "''property''" samples] obtain new where
    n: "colls (snd (insert_many s1 ''property'' samples)) ''property'' = colls s1 ''property'' @ new"
       "list_all (\<lambda>d. d \<in> set samples) (map members new)" by blast
  from n(2) samples_invariant have inv: "list_all property_invariant (map members new)"
    by (auto simp add: list_all_iff)
  show ?thesis
  proof (cases "\<exists>u. r = Inr 0")
    case True
    have "samples \<noteq> []" by (simp add: samples_def)
    with True Some p c n(1) inv show ?thesis
      by (auto simp add: seed_sample_properties_def stored_def split: sum.splits prod.splits)
  next
    case False
    with Some p c have "stored (snd (seed_sample_properties db)) ''property'' = stored db ''property'' @ []"
      by (auto simp add: seed_sample_properties_def stored_def split: sum.splits)
    then show ?thesis by (intro exI [of _ "[]"]) simp
  qed
qed

lemma find_docs_colls: "colls (snd (find_docs rx s c flt)) = colls s"
  by (cases "driver_call s")
     (auto simp add: find_docs_def dest: driver_call_cases split: bool.splits)

lemma find_one_colls: "colls (snd (find_one rx s c flt)) = colls s"
  by (cases "driver_call s")
     (auto simp add: find_one_def dest: driver_call_cases split: bool.splits)

lemma list_properties_stored:
  "stored (snd (list_properties rx db q loc lo hi)) c = stored db c"
proof (cases db)
  case None
  then show ?thesis by (simp add: list_properties_def)
next
  case (Some s)
  obtain r s' where f: "find_docs rx s ''property'' (list_properties_filter q loc lo hi) = (r, s')"
    by (cases "find_docs rx s ''property'' (list_properties_filter q loc lo hi)")
  then have "colls s' = colls s"
    using find_docs_colls [of rx s "''property''" "list_properties_filter q loc lo hi"] by simp
  with Some f show ?thesis
    by (cases r) (simp_all add: list_properties_def get_documents_def stored_def)
qed

lemma get_property_stored: "stored (snd (get_property rx db pid)) c = stored db c"
proof (cases db)
  case None
  then show ?thesis by (simp add: get_property_def)
next
  case (Some s)
  show ?thesis
  proof (cases "ObjectId pid")
    case (Inl e)
    with Some show ?thesis by (simp add: get_property_def)
  next
    case (Inr i)
    obtain r s' where f: "find_one rx s ''property'' [(''_id'', VOid i)] = (r, s')"
      by (cases "find_one rx s ''property'' [(''_id'', VOid i)]")
    then have "colls s' = colls s"
      using find_one_colls [of rx s "''property''" "[(''_id'', VOid i)]"] by simp
    with Some Inr f show ?thesis
      by (simp add: get_property_def stored_def split: sum.splits option.splits)
  qed
qed

lemma create_document_stored:
  "stored (snd (create_document db c d)) c = stored db c
   \<or> (\<exists>i. stored (snd (create_document db c d)) c = stored db c @ [\<lparr>oid = i, members = d\<rparr>])"
proof (cases db)
  case None
  then show ?thesis by (simp add: create_document_def)
next
  case (Some s)
  obtain f s' where dc: "driver_call s = (f, s')" by (cases "driver_call s")
  then have "colls s' = colls s" by (auto dest: driver_call_cases)
  with Some dc show ?thesis
    by (cases f) (simp_all add: create_document_def insert_one_def stored_def add_document_def)
qed

lemma create_document_other:
  assumes "c' \<noteq> c"
  shows "stored (snd (create_document db c d)) c' = stored db c'"
proof (cases db)
  case None
  then show ?thesis by (simp add: create_document_def)
next
  case (Some s)
  obtain f s' where dc: "driver_call s = (f, s')" by (cases "driver_call s")
  then have "colls s' = colls s" by (auto dest: driver_call_cases)
  with Some dc assms show ?thesis
    by (cases f) (simp_all add: create_document_def insert_one_def stored_def add_document_def)
qed

lemma snd_create_property:
  "snd (create_property db p) = snd (create_document db ''property'' (dump_Property p))"
  by (simp add: create_property_def split: prod.splits sum.splits)

lemma snd_create_booking:
  "snd (create_booking db k) = snd (create_document db ''booking'' (dump_Booking k))"
  by (simp add: create_booking_def split: prod.splits sum.splits)

lemma snd_GET_properties:
  "snd (GET_properties rx db q loc lo hi) = snd (list_properties rx db q loc lo hi)"
  by (simp add: GET_properties_def split: prod.splits)

lemma snd_GET_property: "snd (GET_property rx db pid) = snd (get_property rx db pid)"
  by (simp add: GET_property_def split: prod.splits)

lemma snd_POST_properties:
  "snd (POST_properties db b) =
     (case validate_Property b of
        Inl errs \<Rightarrow> db
      | Inr p \<Rightarrow> snd (create_document db ''property'' (dump_Property p)))"
  by (simp add: POST_properties_def snd_create_property [symmetric] split: prod.splits sum.splits)

lemma snd_POST_bookings:
  "snd (POST_bookings db b) =
     (case validate_Booking b of
        Inl errs \<Rightarrow> db
      | Inr k \<Rightarrow> snd (create_document db ''booking'' (dump_Booking k)))"
  by (simp add: POST_bookings_def snd_create_booking [symmetric] split: prod.splits sum.splits)

lemma POST_properties_property:
  "\<exists>new. stored (snd (POST_properties db b)) ''property'' = stored db ''property'' @ new
         \<and> list_all property_invariant (map members new)"
proof (cases "validate_Property b")
  case (Inl errs)
  then have "stored (snd (POST_properties db b)) ''property'' = stored db ''property'' @ []"
    by (simp add: snd_POST_properties)
  then show ?thesis by (intro exI [of _ "[]"]) simp
next
  case (Inr p)
  from create_document_stored [of db "''property''" "dump_Property p"] show ?thesis
  proof
    assume "stored (snd (create_document db ''property'' (dump_Property p))) ''property''
              = stored db ''property''"
    with Inr have "stored (snd (POST_properties db b)) ''property'' = stored db ''property'' @ []"
      by (simp add: snd_POST_properties)
    then show ?thesis by (intro exI [of _ "[]"]) simp
  next
    assume "\<exists>i. stored (snd (create_document db ''property'' (dump_Property p))) ''property''
              = stored db ''property'' @ [\<lparr>oid = i, members = dump_Property p\<rparr>]"
    then obtain i where "stored (snd (create_document db ''property'' (dump_Property p))) ''property''
              = stored db ''property'' @ [\<lparr>oid = i, members = dump_Property p\<rparr>]" ..
    with Inr have "stored (snd (POST_properties db b)) ''property''
              = stored db ''property'' @ [\<lparr>oid = i, members = dump_Property p\<rparr>]"
      by (simp add: snd_POST_properties)
    moreover have "list_all property_invariant (map members [\<lparr>oid = i, members = dump_Property p\<rparr>])"
      using validate_invariant [OF Inr] by simp
    ultimately show ?thesis by blast
  qed
qed

lemma POST_bookings_property:
  "stored (snd (POST_bookings db b)) ''property'' = stored db ''property''"
  by (cases "validate_Booking b") (simp_all add: snd_POST_bookings create_document_other)

lemma Diagnostics_stored:
  "stored (map_option (\<lambda>s. snd (driver_call s)) db) c = stored db c"
  by (cases db) (simp_all add: stored_def driver_call_colls)

lemma exec_property:
  "\<exists>new. stored (exec rx db req) ''property'' = stored db ''property'' @ new
         \<and> list_all property_invariant (map members new)"
proof (cases req)
  case Startup
  then show ?thesis using seed_property [of db] by simp
next
  case (ListProperties q loc lo hi)
  then have "stored (exec rx db req) ''property'' = stored db ''property'' @ []"
    by (simp add: snd_GET_properties list_properties_stored)
  then show ?thesis by (intro exI [of _ "[]"]) simp
next
  case (CreateProperty b)
  then show ?thesis using POST_properties_property [of db b] by simp
next
  case (GetProperty pid)
  then have "stored (exec rx db req) ''property'' = stored db ''property'' @ []"
    by (simp add: snd_GET_property get_property_stored)
  then show ?thesis by (intro exI [of _ "[]"]) simp
next
  case (CreateBooking b)
  then have "stored (exec rx db req) ''property'' = stored db ''property'' @ []"
    by (simp add: POST_bookings_property)
  then show ?thesis by (intro exI [of _ "[]"]) simp
next
  case Root
  then have "stored (exec rx db req) ''property'' = stored db ''property'' @ []" by simp
  then show ?thesis by (intro exI [of _ "[]"]) simp
next
  case Diagnostics
  then have "stored (exec rx db req) ''property'' = stored db ''property'' @ []"
    by (simp add: Diagnostics_stored)
  then show ?thesis by (intro exI [of _ "[]"]) simp
qed

lemma reachable_property:
  assumes "reachable rx db0 db"
  shows "\<exists>new. stored db ''property'' = stored db0 ''property'' @ new
          \<and> list_all property_invariant (map members new)"
  using assms
proof (induction rule: reachable.induct)
  case start
  show ?case by (intro exI [of _ "[]"]) simp
next
  case (step db req)
  then obtain new where n: "stored db ''property'' = stored db0 ''property'' @ new"
    "list_all property_invariant (map members new)" by blast
  from exec_property [of rx db req] obtain new' where
    n': "stored (exec rx db req) ''property'' = stored db ''property'' @ new'"
    "list_all property_invariant (map members new')" by blast
  from n n' have "stored (exec rx db req) ''property'' = stored db0 ''property'' @ (new @ new')
     \<and> list_all property_invariant (map members (new @ new'))" by simp
  then show ?case by blast
qed

section \<open>Identifiers are never reused\<close>

lemma byte_digits_mod:
  "(\<forall>i<n. (word_of_nat (k div 256 ^ i) :: 8 word) = word_of_nat (k' div 256 ^ i))
     \<Longrightarrow> k mod 256 ^ n = k' mod 256 ^ n"
proof (induction n)
  case 0
  show ?case by simp
next
  case (Suc n)
  then have ih: "k mod 256 ^ n = k' mod 256 ^ n" by simp
  from Suc.prems have "(word_of_nat (k div 256 ^ n) :: 8 word) = word_of_nat (k' div 256 ^ n)"
    by simp
  then have "unat (word_of_nat (k div 256 ^ n) :: 8 word) = unat (word_of_nat (k' div 256 ^ n) :: 8 word)"
    by simp
  then have d: "(k div 256 ^ n) mod 256 = (k' div 256 ^ n) mod 256"
    by (simp add: unat_of_nat)
  have p: "(256 :: nat) ^ Suc n = 256 ^ n * 256" by simp
  have "k mod 256 ^ Suc n = 256 ^ n * ((k div 256 ^ n) mod 256) + k mod 256 ^ n"
    unfolding p by (rule mod_mult2_eq)
  moreover have "k' mod 256 ^ Suc n = 256 ^ n * ((k' div 256 ^ n) mod 256) + k' mod 256 ^ n"
    unfolding p by (rule mod_mult2_eq)
  ultimately show ?case using ih d by (simp only:)
qed

lemma new_oid_inj:
  assumes e: "new_oid k = new_oid k'" and b: "k < 2 ^ 96" "k' < 2 ^ 96"
  shows "k = k'"
proof -
  from e have m: "map (\<lambda>i. word_of_nat (k div 256 ^ i) :: 8 word) [0..<12]
                 = map (\<lambda>i. word_of_nat (k' div 256 ^ i)) [0..<12]"
    by (simp add: new_oid_def rev_map [symmetric])
  have "\<forall>i<12. (word_of_nat (k div 256 ^ i) :: 8 word) = word_of_nat (k' div 256 ^ i)"
  proof (intro allI impI)
    fix i :: nat
    assume "i < 12"
    then have "i \<in> set [0..<12]" by simp
    with m show "(word_of_nat (k div 256 ^ i) :: 8 word) = word_of_nat (k' div 256 ^ i)"
      by (simp only: map_eq_conv)
  qed
  then have "k mod 256 ^ 12 = k' mod 256 ^ 12" by (rule byte_digits_mod)
  moreover have "(256 :: nat) ^ 12 = 2 ^ 96" by simp
  ultimately show ?thesis using b by simp
qed

lemma ids_below_Nil: "ids_below n []"
  by (simp add: ids_below_def)

lemma ids_below_mono:
  assumes "ids_below n ds" "n \<le> m"
  shows "ids_below m ds"
  unfolding ids_below_def list_all_iff
proof
  fix d
  assume "d \<in> set ds"
  with assms(1) obtain k where "k < n" "oid d = new_oid k"
    by (auto simp add: ids_below_def list_all_iff)
  with assms(2) show "\<exists>k<m. oid d = new_oid k" by (intro exI [of _ k]) simp
qed

lemma add_document_ids:
  assumes "ids_below (counter s) (colls s c')"
  shows "ids_below (counter (add_document c d s)) (colls (add_document c d s) c')"
proof -
  from assms have a: "ids_below (Suc (counter s)) (colls s c')" by (rule ids_below_mono) simp
  have b: "ids_below (Suc (counter s)) [\<lparr>oid = new_oid (counter s), members = d\<rparr>]"
    by (auto simp add: ids_below_def)
  show ?thesis
  proof (cases "c' = c")
    case True
    with a b show ?thesis by (simp add: add_document_def ids_below_def)
  next
    case False
    with a show ?thesis by (simp add: add_document_def)
  qed
qed

lemma fold_add_document_ids:
  "ids_below (counter s) (colls s c')
     \<Longrightarrow> ids_below (counter (fold (add_document c) ds s)) (colls (fold (add_document c) ds s) c')"
  by (induction ds arbitrary: s) (simp_all add: add_document_ids)

lemma ids_after_call:
  assumes "driver_call s = (f, s')" "ids_below (counter s) (colls s c)"
  shows "ids_below (counter s') (colls s' c)"
  using assms driver_call_cases [OF assms(1)] by simp

lemma seed_ids: "ids_ok db \<Longrightarrow> ids_ok (snd (seed_sample_properties db))"
proof (cases db)
  case None
  then show ?thesis by (simp add: seed_sample_properties_def ids_ok_def)
next
  case (Some s)
  assume "ids_ok db"
  with Some have a: "ids_below (counter s) (colls s ''property'')" by (simp add: ids_ok_def)
  obtain f s1 where d1: "driver_call s = (f, s1)" by (cases "driver_call s")
  from d1 a have a1: "ids_below (counter s1) (colls s1 ''property'')" by (rule ids_after_call)
  obtain g s2 where d2: "driver_call s1 = (g, s2)" by (cases "driver_call s1")
  from d2 a1 have a2: "ids_below (counter s2) (colls s2 ''property'')" by (rule ids_after_call)
  from a2 have a3: "ids_below (counter (fold (add_document ''property'') samples s2))
           (colls (fold (add_document ''property'') samples s2) ''property'')"
    by (rule fold_add_document_ids)
  from Some d1 d2 a1 a2 a3 show ?thesis
    by (cases f; cases g)
       (auto simp add: seed_sample_properties_def count_documents_def insert_many_def ids_ok_def
          ids_below_Nil)
qed

lemma list_properties_ids: "ids_ok db \<Longrightarrow> ids_ok (snd (list_properties rx db q loc lo hi))"
proof (cases db)
  case None
  then show ?thesis by (simp add: list_properties_def ids_ok_def)
next
  case (Some s)
  assume "ids_ok db"
  with Some have a: "ids_below (counter s) (colls s ''property'')" by (simp add: ids_ok_def)
  obtain f s1 where d1: "driver_call s = (f, s1)" by (cases "driver_call s")
  from d1 a have a1: "ids_below (counter s1) (colls s1 ''property'')" by (rule ids_after_call)
  from Some d1 a1 show ?thesis
    by (cases f)
       (simp_all add: list_properties_def get_documents_def find_docs_def ids_ok_def
          split: sum.splits)
qed

lemma get_property_ids: "ids_ok db \<Longrightarrow> ids_ok (snd (get_property rx db pid))"
proof (cases db)
  case None
  then show ?thesis by (simp add: get_property_def ids_ok_def)
next
  case (Some s)
  assume "ids_ok db"
  with Some have a: "ids_below (counter s) (colls s ''property'')" by (simp add: ids_ok_def)
  obtain f s1 where d1: "driver_call s = (f, s1)" by (cases "driver_call s")
  from d1 a have a1: "ids_below (counter s1) (colls s1 ''property'')" by (rule ids_after_call)
  from Some d1 a a1 show ?thesis
    by (cases f)
       (simp_all add: get_property_def find_one_def ids_ok_def split: sum.splits option.splits)
qed

lemma create_document_ids: "ids_ok db \<Longrightarrow> ids_ok (snd (create_document db c d))"
proof (cases db)
  case None
  then show ?thesis by (simp add: create_document_def ids_ok_def)
next
  case (Some s)
  assume "ids_ok db"
  with Some have a: "ids_below (counter s) (colls s ''property'')" by (simp add: ids_ok_def)
  obtain f s1 where d1: "driver_call s = (f, s1)" by (cases "driver_call s")
  from d1 a have a1: "ids_below (counter s1) (colls s1 ''property'')" by (rule ids_after_call)
  from a1 have a2: "ids_below (counter (add_document c d s1)) (colls (add_document c d s1) ''property'')"
    by (rule add_document_ids)
  from Some d1 a1 a2 show ?thesis
    by (cases f) (simp_all add: create_document_def insert_one_def ids_ok_def)
qed

lemma Diagnostics_ids: "ids_ok db \<Longrightarrow> ids_ok (map_option (\<lambda>s. snd (driver_call s)) db)"
  by (cases db) (simp_all add: ids_ok_def driver_call_colls driver_call_counter)

lemma exec_ids: "ids_ok db \<Longrightarrow> ids_ok (exec rx db req)"
proof (cases req)
  case (CreateProperty b)
  assume "ids_ok db"
  with CreateProperty show ?thesis
    by (cases "validate_Property b") (simp_all add: snd_POST_properties create_document_ids)
next
  case (CreateBooking b)
  assume "ids_ok db"
  with CreateBooking show ?thesis
    by (cases "validate_Booking b") (simp_all add: snd_POST_bookings create_document_ids)
qed (simp_all add: seed_ids snd_GET_properties list_properties_ids snd_GET_property
       get_property_ids Diagnostics_ids)

lemma reachable_ids: "reachable rx db0 db \<Longrightarrow> ids_ok db0 \<Longrightarrow> ids_ok db"
  by (induction rule: reachable.induct) (simp_all add: exec_ids)

lemma ids_ok_empty: "stored db0 ''property'' = [] \<Longrightarrow> ids_ok db0"
  by (cases db0) (simp_all add: ids_ok_def stored_def ids_below_def)

lemma ids_fresh:
  assumes "ids_below (counter s) (colls s ''property'')" "counter s < 2 ^ 96"
  shows "\<not> list_ex (\<lambda>d. oid d = new_oid (counter s)) (colls s ''property'')"
proof
  assume "list_ex (\<lambda>d. oid d = new_oid (counter s)) (colls s ''property'')"
  then obtain d where d: "d \<in> set (colls s ''property'')" "oid d = new_oid (counter s)"
    by (auto simp add: list_ex_iff)
  with assms(1) obtain k where k: "k < counter s" "oid d = new_oid k"
    by (auto simp add: ids_below_def list_all_iff)
  with d have "new_oid k = new_oid (counter s)" by simp
  then have "k = counter s" using k(1) assms(2) by (intro new_oid_inj) simp_all
  with k(1) show False by simp
qed

section \<open>Creating and reading back\<close>

lemma validate_Property_fields:
  assumes "validate_Property b = Inr p"
  shows "body_title b = Some (title p) \<and> body_description b = Some (description p)
     \<and> body_location b = Some (location p) \<and> country p = body_country b
     \<and> body_price_per_night b = Some (price_per_night p)
     \<and> body_max_guests b = Some (max_guests p)
     \<and> bedrooms p = (case body_bedrooms b of None \<Rightarrow> 1 | Some n \<Rightarrow> n)
     \<and> bathrooms p = (case body_bathrooms b of None \<Rightarrow> 1 | Some n \<Rightarrow> n)
     \<and> rating p = body_rating b
     \<and> review_count p = (case body_review_count b of None \<Rightarrow> Some 0 | Some n \<Rightarrow> n)
     \<and> amenities p = (case body_amenities b of None \<Rightarrow> [] | Some xs \<Rightarrow> xs)
     \<and> image_urls p = (case body_image_urls b of None \<Rightarrow> [] | Some xs \<Rightarrow> xs)"
proof -
  from assms obtain t d l pr g where
    g: "body_title b = Some t" "body_description b = Some d" "body_location b = Some l"
       "body_price_per_night b = Some pr" "body_max_guests b = Some g"
    by (auto simp add: validate_Property_def split: option.splits)
  from assms g have "p = \<lparr>title = t, description = d, location = l, country = body_country b,
                   price_per_night = pr, max_guests = g,
                   bedrooms = (case body_bedrooms b of None \<Rightarrow> 1 | Some n \<Rightarrow> n),
                   bathrooms = (case body_bathrooms b of None \<Rightarrow> 1 | Some n \<Rightarrow> n),
                   rating = body_rating b,
                   review_count = (case body_review_count b of None \<Rightarrow> Some 0 | Some n \<Rightarrow> n),
                   amenities = (case body_amenities b of None \<Rightarrow> [] | Some xs \<Rightarrow> xs),
                   image_urls = (case body_image_urls b of None \<Rightarrow> [] | Some xs \<Rightarrow> xs)\<rparr>"
    by (simp add: validate_Property_def split: if_splits)
  with g show ?thesis by simp
qed

lemma create_document_ok:
  assumes "driver_call s = (False, s1)" "counter s1 = counter s"
  shows "create_document (Some s) c d
           = (Inr (str_oid (new_oid (counter s))), Some (add_document c d s1))"
  using assms by (simp add: create_document_def insert_one_def)

lemma get_property_found:
  assumes dc: "driver_call s = (False, s')" and k: "colls s' = colls s"
    and c: "colls s ''property'' = xs @ [\<lparr>oid = i, members = dump_Property p\<rparr>]"
    and f: "\<not> list_ex (\<lambda>d. oid d = i) xs"
    and l: "length (binary i) = 12"
  shows "get_property rx (Some s) (str_oid i)
           = (Inr (Property.extend p \<lparr>ident = str_oid i\<rparr>), Some s')"
proof -
  have "List.find (\<lambda>d. matches rx [(''_id'', VOid i)] (as_dict d)) (colls s' ''property'')
          = Some \<lparr>oid = i, members = dump_Property p\<rparr>"
    using f by (simp add: k c matches_id find_snoc)
  then have "find_one rx s ''property'' [(''_id'', VOid i)]
          = (Inr (Some \<lparr>oid = i, members = dump_Property p\<rparr>), s')"
    using dc by (simp add: find_one_def)
  then show ?thesis
    by (simp add: get_property_def ObjectId_str_oid [OF l] PropertyOut_of_dump)
qed

lemma round_trip_fresh:
  assumes v: "validate_Property b = Inr p"
    and h: "True \<notin> set (take 2 (faults s))"
    and fresh: "\<not> list_ex (\<lambda>d. oid d = new_oid (counter s)) (colls s ''property'')"
  shows "fst (POST_properties (Some s) b)
           = Response 201 (Payload [(''id'', VStr (str_oid (new_oid (counter s))))])
     \<and> fst (GET_property rx (snd (POST_properties (Some s) b)) (str_oid (new_oid (counter s))))
           = Response 200 (Payload (Property.extend p \<lparr>ident = str_oid (new_oid (counter s))\<rparr>))"
proof -
  let ?i = "new_oid (counter s)"
  let ?d = "dump_Property p"
  from h obtain s1 where d1: "driver_call s = (False, s1)" and k1: "colls s1 = colls s"
    and n1: "counter s1 = counter s" and h1: "True \<notin> set (take 1 (faults s1))"
    by (rule driver_call_ok2)
  let ?s2 = "add_document ''property'' ?d s1"
  have post: "POST_properties (Some s) b = (Response 201 (Payload [(''id'', VStr (str_oid ?i))]), Some ?s2)"
    by (simp add: POST_properties_def v create_property_def create_document_ok [OF d1 n1])
  have "faults ?s2 = faults s1" by (simp add: add_document_def)
  with h1 have "True \<notin> set (take 1 (faults ?s2))" by simp
  then obtain s3 where d3: "driver_call ?s2 = (False, s3)" and k3: "colls s3 = colls ?s2"
    by (rule driver_call_ok)
  have c2: "colls ?s2 ''property'' = colls s ''property'' @ [\<lparr>oid = ?i, members = ?d\<rparr>]"
    by (simp add: add_document_def k1 n1)
  have "get_property rx (Some ?s2) (str_oid ?i)
          = (Inr (Property.extend p \<lparr>ident = str_oid ?i\<rparr>), Some s3)"
    using d3 k3 c2 fresh length_new_oid by (rule get_property_found)
  with post show ?thesis by (simp add: GET_property_def)
qed

section \<open>The startup seeder\<close>



section \<open>The invariant of stored properties\<close>

text \<open>
  C7: through any sequence of operations (startup seeding and calls of the routes), from
  any database, the \<^verbatim>\<open>property\<close> documents that were there stay, unchanged and in place,
  as the beginning of the collection, and every document added since satisfies the
  invariant: \<^verbatim>\<open>price_per_night\<close> at least 0, \<^verbatim>\<open>max_guests\<close> at least 1, and a rating,
  when present, from 0 to 5. So every stored property satisfies it when the database
  started without properties.
\<close>

theorem stored_properties_invariant:
  assumes "reachable rx db0 db"
  shows "prefix (stored db0 ''property'') (stored db ''property'')
     \<and> list_all property_invariant
         (map members (drop (length (stored db0 ''property'')) (stored db ''property'')))
     \<and> (stored db0 ''property'' = [] \<longrightarrow>
          list_all property_invariant (map members (stored db ''property'')))"
proof -
  from reachable_property [OF assms] obtain new where
    n: "stored db ''property'' = stored db0 ''property'' @ new"
       "list_all property_invariant (map members new)" by blast
  then show ?thesis by simp
qed

theorem stored_properties_invariant_witness:
  "reachable (\<lambda>p opts s. True) (Some empty_store)
     (exec (\<lambda>p opts s. True) (exec (\<lambda>p opts s. True) (Some empty_store) Startup)
        (CreateProperty example_body))
   \<and> list_all property_invariant
       (map members
         (stored (exec (\<lambda>p opts s. True) (exec (\<lambda>p opts s. True) (Some empty_store) Startup)
                    (CreateProperty example_body)) ''property''))"
proof -
  have r: "reachable (\<lambda>p opts s. True) (Some empty_store)
     (exec (\<lambda>p opts s. True) (exec (\<lambda>p opts s. True) (Some empty_store) Startup)
        (CreateProperty example_body))"
    by (intro reachable.step reachable.start)
  have e: "stored (Some empty_store) ''property'' = []"
    by (simp add: stored_def empty_store_def)
  from stored_properties_invariant [OF r] e r show ?thesis by simp
qed

section \<open>Round trip\<close>

text \<open>
  C4: in every database the system can reach from one without properties (with fewer
  than \<open>2 ^ 96\<close> identifiers drawn, and the two driver calls not failing), a body that
  passes validation is answered by \<^verbatim>\<open>POST /api/properties\<close> with status 201 and an id, and
  \<^verbatim>\<open>GET /api/properties/{id}\<close> with that id then answers status 200 with a view that has
  this id and, field for field, the validated property: the members the body gave, and
  the defaults of the schema for the optional members it omitted.
\<close>

theorem property_round_trip:
  assumes r: "reachable rx db0 (Some s)" and e: "stored db0 ''property'' = []"
    and n: "counter s < 2 ^ 96" and h: "True \<notin> set (take 2 (faults s))"
    and v: "validate_Property b = Inr p"
  shows "fst (POST_properties (Some s) b)
           = Response 201 (Payload [(''id'', VStr (str_oid (new_oid (counter s))))])
     \<and> fst (GET_property rx (snd (POST_properties (Some s) b)) (str_oid (new_oid (counter s))))
           = Response 200 (Payload (Property.extend p \<lparr>ident = str_oid (new_oid (counter s))\<rparr>))
     \<and> body_title b = Some (title p) \<and> body_description b = Some (description p)
     \<and> body_location b = Some (location p) \<and> country p = body_country b
     \<and> body_price_per_night b = Some (price_per_night p)
     \<and> body_max_guests b = Some (max_guests p)
     \<and> bedrooms p = (case body_bedrooms b of None \<Rightarrow> 1 | Some n \<Rightarrow> n)
     \<and> bathrooms p = (case body_bathrooms b of None \<Rightarrow> 1 | Some n \<Rightarrow> n)
     \<and> rating p = body_rating b
     \<and> review_count p = (case body_review_count b of None \<Rightarrow> Some 0 | Some n \<Rightarrow> n)
     \<and> amenities p = (case body_amenities b of None \<Rightarrow> [] | Some xs \<Rightarrow> xs)
     \<and> image_urls p = (case body_image_urls b of None \<Rightarrow> [] | Some xs \<Rightarrow> xs)"
proof -
  from e have "ids_ok db0" by (rule ids_ok_empty)
  with r have "ids_ok (Some s)" by (rule reachable_ids)
  then have "ids_below (counter s) (colls s ''property'')" by (simp add: ids_ok_def)
  then have "\<not> list_ex (\<lambda>d. oid d = new_oid (counter s)) (colls s ''property'')"
    using n by (rule ids_fresh)
  with v h have "fst (POST_properties (Some s) b)
           = Response 201 (Payload [(''id'', VStr (str_oid (new_oid (counter s))))])
     \<and> fst (GET_property rx (snd (POST_properties (Some s) b)) (str_oid (new_oid (counter s))))
           = Response 200 (Payload (Property.extend p \<lparr>ident = str_oid (new_oid (counter s))\<rparr>))"
    by (rule round_trip_fresh)
  with validate_Property_fields [OF v] show ?thesis by (simp only: simp_thms)
qed

lemma upt12: "[0..<12] = [0,1,2,3,4,5,6,7,8,9,10,11]"
  by (simp add: upt_rec)

lemma seeded: "exec rx (Some empty_store) Startup = Some seeded_store"
  by (simp add: seed_sample_properties_def count_documents_def insert_many_def driver_call_def
        empty_store_def seeded_store_def samples_def)

lemma counter_fold_add_document:
  "counter (fold (add_document c) ds s) = counter s + length ds"
  by (induction ds arbitrary: s) (simp_all add: add_document_def)

lemma faults_fold_add_document: "faults (fold (add_document c) ds s) = faults s"
  by (induction ds arbitrary: s) (simp_all add: add_document_def)

theorem property_round_trip_witness:
  "fst (POST_properties (Some seeded_store) example_body)
     = Response 201 (Payload [(''id'', VStr ''000000000000000000000003'')])
   \<and> fst (GET_property (\<lambda>p opts s. True) (snd (POST_properties (Some seeded_store) example_body))
            ''000000000000000000000003'')
     = Response 200 (Payload
         \<lparr>title = ''Test'', description = ''d'', location = ''X'', country = None,
          price_per_night = 100, max_guests = 2, bedrooms = 1, bathrooms = 1, rating = None,
          review_count = Some 0, amenities = [], image_urls = [],
          ident = ''000000000000000000000003''\<rparr>)"
proof -
  have r: "reachable (\<lambda>p opts s. True) (Some empty_store) (Some seeded_store)"
    using reachable.step [OF reachable.start, of "\<lambda>p opts s. True" "Some empty_store" Startup]
    by (simp only: seeded)
  have e: "stored (Some empty_store) ''property'' = []"
    by (simp add: stored_def empty_store_def)
  have c: "counter seeded_store = 3"
    by (simp add: seeded_store_def counter_fold_add_document) (simp add: samples_def empty_store_def)
  have n: "counter seeded_store < 2 ^ 96" by (simp add: c)
  have h: "True \<notin> set (take 2 (faults seeded_store))"
    by (simp add: seeded_store_def faults_fold_add_document empty_store_def)
  have v: "validate_Property example_body = Inr example_property"
    by (simp add: validate_Property_def example_body_def example_property_def Property_errors_def
          required_def optional_def)
  have i: "str_oid (new_oid 3) = ''000000000000000000000003''"
    by (simp add: str_oid_def new_oid_def hex2_def hexchar_def upt12)
  from property_round_trip [OF r e n h v] show ?thesis
    by (simp add: c i Property.extend_def example_property_def)
qed

section \<open>Booking inquiries\<close>

text \<open>
  C8: a body that has every required member and \<^verbatim>\<open>guests\<close> at least 1 is answered by
  \<^verbatim>\<open>POST /api/bookings\<close> with status 201 and \<^verbatim>\<open>{id, status: "received"}\<close>, and the booking
  is stored as sent, when there is a store connection and the driver call does not fail.
  Nothing is asked of the two dates relative to each other, nor of \<^verbatim>\<open>property_id\<close>, nor
  of the properties in the database.
\<close>

theorem POST_bookings_accepts:
  assumes "body_property_id b = Some p" "body_name b = Some n" "body_email b = Some e"
    "body_check_in b = Some ci" "body_check_out b = Some co" "body_guests b = Some g" "1 \<le> g"
    and h: "True \<notin> set (take 1 (faults s))"
  shows "fst (POST_bookings (Some s) b)
           = Response 201 (Payload [(''id'', VStr (str_oid (new_oid (counter s)))),
                                    (''status'', VStr ''received'')])
     \<and> stored (snd (POST_bookings (Some s) b)) ''booking''
           = colls s ''booking''
             @ [\<lparr>oid = new_oid (counter s),
                 members = dump_Booking \<lparr>property_id = p, name = n, email = e,
                    phone = body_phone b, check_in = ci, check_out = co, guests = g,
                    message = body_message b\<rparr>\<rparr>]"
proof -
  let ?k = "\<lparr>property_id = p, name = n, email = e,
                    phone = body_phone b, check_in = ci, check_out = co, guests = g,
                    message = body_message b\<rparr>"
  have v: "validate_Booking b = Inr ?k"
    using assms by (simp add: validate_Booking_def Booking_errors_def required_def)
  from h obtain s1 where d1: "driver_call s = (False, s1)" and k1: "colls s1 = colls s"
    and n1: "counter s1 = counter s" by (rule driver_call_ok)
  have "POST_bookings (Some s) b
          = (Response 201 (Payload [(''id'', VStr (str_oid (new_oid (counter s)))),
                                    (''status'', VStr ''received'')]),
             Some (add_document ''booking'' (dump_Booking ?k) s1))"
    by (simp add: POST_bookings_def v create_booking_def create_document_ok [OF d1 n1])
  then show ?thesis by (simp add: stored_def add_document_def k1 n1)
qed

theorem POST_bookings_accepts_witness:
  "fst (POST_bookings (Some empty_store) example_booking)
     = Response 201 (Payload [(''id'', VStr ''000000000000000000000000''),
                              (''status'', VStr ''received'')])
   \<and> map members (stored (snd (POST_bookings (Some empty_store) example_booking)) ''booking'')
     = [[(''property_id'', VStr ''no-such-property''), (''name'', VStr ''Ada''),
         (''email'', VStr ''ada@example.org''), (''phone'', VNull),
         (''check_in'', VDate (Date 2025 7 10)), (''check_out'', VDate (Date 2025 7 2)),
         (''guests'', VInt 1), (''message'', VNull)]]
   \<and> stored (Some empty_store) ''property'' = []"
proof -
  have i: "str_oid (new_oid 0) = ''000000000000000000000000''"
    by (simp add: str_oid_def new_oid_def hex2_def hexchar_def upt12)
  have c: "counter empty_store = 0" "colls empty_store ''booking'' = []"
    "stored (Some empty_store) ''property'' = []"
    by (simp_all add: empty_store_def stored_def)
  have h: "True \<notin> set (take 1 (faults empty_store))"
    by (simp add: empty_store_def)
  have b: "body_property_id example_booking = Some ''no-such-property''"
    "body_name example_booking = Some ''Ada''"
    "body_email example_booking = Some ''ada@example.org''"
    "body_check_in example_booking = Some (Date 2025 7 10)"
    "body_check_out example_booking = Some (Date 2025 7 2)"
    "body_guests example_booking = Some 1" "(1 :: int) \<le> 1"
    by (simp_all add: example_booking_def)
  have o: "body_phone example_booking = None" "body_message example_booking = None"
    by (simp_all add: example_booking_def)
  from POST_bookings_accepts [OF b h] show ?thesis
    by (simp add: c i o dump_Booking_def opt_val_def)
qed

end
